theory Spec2Isabelle
  imports Complex_Main
begin

section \<open>Numbers and strings of the source language\<close>

text \<open>
  The quiz backend is written in JavaScript. Its numbers are modelled as exact
  rationals (the values every computation below would have without binary rounding),
  integral database columns as \<open>int\<close>, and a string as a list of code units in the
  range U+0000 to U+00FF, one \<open>char\<close> each.

  \<open>Math.round\<close> rounds to the nearest integer, a tie going towards plus infinity.
\<close>

definition js_round :: "rat \<Rightarrow> int" where
  "js_round x = \<lfloor>x + 1 / 2\<rfloor>"

text \<open>
  The class \<open>\s\<close> of a regular expression, restricted to the code units modelled:
  tab, line feed, vertical tab, form feed, carriage return, space, no-break space.
\<close>

definition is_ws :: "char \<Rightarrow> bool" where
  "is_ws c = ((of_char c :: nat) \<in> {9, 10, 11, 12, 13, 32, 160})"

text \<open>
  \<open>String.prototype.toLowerCase\<close>: the letters A to Z and the upper-case letters of
  the Latin-1 supplement (U+00C0 to U+00DE without the multiplication sign U+00D7) move
  up by 32; every other code unit is kept.
\<close>

definition lower_char :: "char \<Rightarrow> char" where
  "lower_char c =
     (let n = (of_char c :: nat)
      in if (65 \<le> n \<and> n \<le> 90) \<or> (192 \<le> n \<and> n \<le> 222 \<and> n \<noteq> 215)
         then char_of (n + 32) else c)"

definition toLowerCase :: "string \<Rightarrow> string" where
  "toLowerCase s = map lower_char s"

text \<open>
  \<open>s.split(/\s+/)\<close>: the text before the first maximal run of whitespace, then the
  split of what follows the run. A string without whitespace, the empty string too, is
  returned as its only piece; whitespace at either end leaves an empty piece there.
\<close>

function split_ws :: "string \<Rightarrow> string list" where
  "split_ws s =
     (let w = takeWhile (\<lambda>c. \<not> is_ws c) s;
          r = dropWhile (\<lambda>c. \<not> is_ws c) s
      in if r = [] then [w] else w # split_ws (dropWhile is_ws r))"
  by pat_completeness auto
termination
proof (relation "measure length")
  show "wf (measure length)" by simp
next
  fix s :: string and w r :: string
  assume r: "r = dropWhile (\<lambda>c. \<not> is_ws c) s" and ne: "r \<noteq> []"
  from ne obtain c cs where rc: "r = c # cs" by (cases r) auto
  have "dropWhile (\<lambda>c. \<not> is_ws c) s = c # cs" using r rc by simp
  then have "is_ws c" by (simp add: dropWhile_eq_Cons_conv)
  then have "dropWhile is_ws r = dropWhile is_ws cs" using rc by simp
  then have "length (dropWhile is_ws r) \<le> length cs"
    by (simp add: length_dropWhile_le)
  also have "length cs < length r" using rc by simp
  also have "length r \<le> length s" using r by (simp add: length_dropWhile_le)
  finally show "(dropWhile is_ws r, s) \<in> measure length" by simp
qed

declare split_ws.simps [simp del]

text \<open>\<open>Array.prototype.includes\<close> on an array of strings.\<close>

primrec array_includes :: "'a list \<Rightarrow> 'a \<Rightarrow> bool" where
  "array_includes [] x = False"
| "array_includes (y # ys) x = (y = x \<or> array_includes ys x)"

section \<open>Similarity fallback\<close>

text \<open>
  \<open>calculateSimilarity(text1, text2)\<close>, the same in the AI service and in the
  submission controller:
  \<^verbatim>\<open>
  const words1 = text1.split(/\s+/);
  const words2 = text2.split(/\s+/);
  const commonWords = words1.filter(word => words2.includes(word));
  return commonWords.length / Math.max(words1.length, words2.length);
  \<close>
  Both arrays have at least one element, so the divisor is never zero.
\<close>

definition calculateSimilarity :: "string \<Rightarrow> string \<Rightarrow> rat" where
  "calculateSimilarity text1 text2 =
     (let words1 = split_ws text1;
          words2 = split_ws text2;
          commonWords = filter (\<lambda>word. array_includes words2 word) words1
      in of_nat (length commonWords) / of_nat (max (length words1) (length words2)))"

text \<open>Every caller lower-cases both arguments first.\<close>

definition similarity_fallback :: "string \<Rightarrow> string \<Rightarrow> rat" where
  "similarity_fallback a b = calculateSimilarity (toLowerCase a) (toLowerCase b)"

text \<open>
  The specification's wording: the number of words of \<open>a\<close>, each occurrence counted,
  that occur somewhere in \<open>b\<close>, over the larger of the two word counts.
\<close>

definition words_in :: "string list \<Rightarrow> string list \<Rightarrow> nat" where
  "words_in wa wb = (\<Sum>w\<leftarrow>wa. if w \<in> set wb then 1 else 0)"

definition spec_similarity :: "string \<Rightarrow> string \<Rightarrow> rat" where
  "spec_similarity a b =
     of_nat (words_in (split_ws (toLowerCase a)) (split_ws (toLowerCase b)))
     / of_nat (max (length (split_ws (toLowerCase a))) (length (split_ws (toLowerCase b))))"

section \<open>Data model\<close>

text \<open>
  The tables of \<open>models/Quiz.js\<close>, \<open>models/Submission.js\<close> and \<open>models/User.js\<close>, with
  the columns the controllers read or write. Primary keys (UUIDs in the source) are
  natural numbers; dates are milliseconds since the epoch. A nullable column is an
  \<open>option\<close>. The store keeps its rows as they are written: schema validators and
  indexes are not part of the model.
\<close>

type_synonym uuid = nat
type_synonym date = int

datatype question_type = multiple_choice | true_false | short_answer | essay

record question =
  qn_id :: uuid
  question_text :: string
  question_type :: question_type
  correct_answer :: string
  points :: int
  explanation :: "string option"

record quiz =
  qz_id :: uuid
  title :: string
  subject :: string
  grade_level :: int
  qz_total_questions :: int
  time_limit_minutes :: "int option"
  max_attempts :: int
  is_active :: bool
  questions :: "question list"

datatype status = in_progress | completed | abandoned | expired

datatype js_number = Num rat | Infinity | NegInfinity | NaN

record performance =
  strengths :: "uuid list"
  weaknesses :: "uuid list"
  average_time_per_question :: js_number

record submission =
  sub_id :: uuid
  sub_user_id :: uuid
  sub_quiz_id :: uuid
  attempt_number :: int
  total_questions :: int
  correct_answers :: int
  score_percentage :: "rat option"
  total_points_earned :: int
  total_points_possible :: int
  time_taken_minutes :: "rat option"
  started_at :: date
  completed_at :: "date option"
  status :: status
  improvement_suggestions :: "string list"
  performance_analysis :: "performance option"

record answer =
  ans_submission_id :: uuid
  ans_question_id :: uuid
  user_answer :: string
  is_correct :: bool
  points_earned :: int
  time_taken_seconds :: "int option"
  hint_used :: bool
  ai_explanation :: "string option"

record user =
  usr_id :: uuid
  total_quizzes_attempted :: nat
  average_score :: rat

record db =
  quizzes :: "quiz list"
  submissions :: "submission list"
  answers :: "answer list"
  users :: "user list"

section \<open>Scores and statistics\<close>

text \<open>
  \<open>Submission.prototype.calculateScore\<close>:
  \<^verbatim>\<open>
  if (this.total_points_possible === 0) return 0;
  return Math.round((this.total_points_earned / this.total_points_possible) * 100 * 100) / 100;
  \<close>
\<close>

definition calculateScore :: "submission \<Rightarrow> rat" where
  "calculateScore this =
     (if total_points_possible this = 0 then 0
      else of_int (js_round
             ((of_int (total_points_earned this) / of_int (total_points_possible this))
              * 100 * 100)) / 100)"

text \<open>
  \<open>Submission.prototype.completeSubmission\<close>, at the time \<open>completedAt\<close>. The column
  \<open>started_at\<close> is never null, so the source's test of it always succeeds.
\<close>

definition completeSubmission :: "date \<Rightarrow> submission \<Rightarrow> submission" where
  "completeSubmission completedAt this =
     (let timeTaken = of_int (completedAt - started_at this) / (1000 * 60)
      in this\<lparr>completed_at := Some completedAt,
              time_taken_minutes := Some timeTaken,
              status := completed,
              score_percentage := Some (calculateScore this)\<rparr>)"

text \<open>
  \<open>User.prototype.updateStats\<close>:
  \<^verbatim>\<open>
  const totalAttempts = this.total_quizzes_attempted + 1;
  const newAverage = ((this.average_score * this.total_quizzes_attempted) + newScore) / totalAttempts;
  await this.update({
    total_quizzes_attempted: totalAttempts,
    average_score: Math.round(newAverage * 100) / 100
  });
  \<close>
\<close>

definition updateStats :: "user \<Rightarrow> rat \<Rightarrow> user" where
  "updateStats this newScore =
     (let totalAttempts = total_quizzes_attempted this + 1;
          newAverage = ((average_score this * of_nat (total_quizzes_attempted this)) + newScore)
                       / of_nat totalAttempts
      in this\<lparr>total_quizzes_attempted := totalAttempts,
              average_score := of_int (js_round (newAverage * 100)) / 100\<rparr>)"

text \<open>\<open>getGrade\<close> of the submission controller.\<close>

definition getGrade :: "rat \<Rightarrow> string" where
  "getGrade scorePercentage =
     (if scorePercentage \<ge> 90 then ''A+''
      else if scorePercentage \<ge> 85 then ''A''
      else if scorePercentage \<ge> 80 then ''A-''
      else if scorePercentage \<ge> 75 then ''B+''
      else if scorePercentage \<ge> 70 then ''B''
      else if scorePercentage \<ge> 65 then ''B-''
      else if scorePercentage \<ge> 60 then ''C+''
      else if scorePercentage \<ge> 55 then ''C''
      else if scorePercentage \<ge> 50 then ''C-''
      else ''F'')"


text \<open>Example rows.\<close>

definition blank_submission :: submission where
  "blank_submission =
     \<lparr>sub_id = 1, sub_user_id = 1, sub_quiz_id = 1, attempt_number = 1,
      total_questions = 0, correct_answers = 0, score_percentage = None,
      total_points_earned = 0, total_points_possible = 0, time_taken_minutes = None,
      started_at = 0, completed_at = None, status = in_progress,
      improvement_suggestions = [], performance_analysis = None\<rparr>"

definition example_user :: user where
  "example_user = \<lparr>usr_id = 1, total_quizzes_attempted = 2, average_score = 80\<rparr>"

section \<open>Adaptive difficulty\<close>

text \<open>
  A history entry is the object \<open>{score_percentage, difficulty}\<close> that \<open>generateQuiz\<close>
  builds for each row of its query, the most recently completed submission first. An
  element of the history array that is \<open>null\<close> or \<open>undefined\<close> is \<open>None\<close>: reading a
  property of it throws a \<open>TypeError\<close>.
\<close>

record history_entry =
  h_score_percentage :: rat
  h_difficulty :: string

record recommendation =
  rec_difficulty :: string
  rec_reasoning :: string
  rec_averageScore :: rat
  rec_trend :: string

text \<open>What \<open>adaptQuizDifficulty\<close> returns: a string on one path, an object on the others.\<close>

datatype adapt_result = JsString string | JsObject recommendation

text \<open>\<open>xs.slice(-n)\<close>: the last \<open>n\<close> elements, the whole array when it is shorter.\<close>

definition slice_last :: "nat \<Rightarrow> 'a list \<Rightarrow> 'a list" where
  "slice_last n xs = drop (length xs - n) xs"

text \<open>
  \<open>calculateTrend\<close> of the AI service:
  \<^verbatim>\<open>
  if (scores.length < 2) return 0;
  const firstHalf = scores.slice(0, Math.floor(scores.length / 2));
  const secondHalf = scores.slice(Math.floor(scores.length / 2));
  const firstAvg = firstHalf.reduce((a, b) => a + b, 0) / firstHalf.length;
  const secondAvg = secondHalf.reduce((a, b) => a + b, 0) / secondHalf.length;
  return secondAvg - firstAvg;
  \<close>
\<close>

definition calculateTrend :: "rat list \<Rightarrow> rat" where
  "calculateTrend scores =
     (if length scores < 2 then 0
      else let firstHalf = take (length scores div 2) scores;
               secondHalf = drop (length scores div 2) scores;
               firstAvg = foldl (\<lambda>a b. a + b) 0 firstHalf / of_nat (length firstHalf);
               secondAvg = foldl (\<lambda>a b. a + b) 0 secondHalf / of_nat (length secondHalf)
           in secondAvg - firstAvg)"

definition getDifficultyReasoning :: "rat \<Rightarrow> rat \<Rightarrow> string" where
  "getDifficultyReasoning averageScore trend =
     (if averageScore \<ge> 85 \<and> trend \<ge> 0
        then ''You'' @ [CHR 0x27] @ ''re doing great! Ready for more challenging questions.''
      else if averageScore \<ge> 70 then ''Good progress! Continuing with moderate difficulty.''
      else if averageScore < 60
        then ''Let'' @ [CHR 0x27] @ ''s focus on building confidence with easier questions.''
      else ''Mixed difficulty to help you improve gradually.'')"

text \<open>
  The reads \<open>quiz.score_percentage\<close> over an array, in order: \<open>None\<close> when one of them
  throws.
\<close>

fun score_percentages :: "history_entry option list \<Rightarrow> rat list option" where
  "score_percentages [] = Some []"
| "score_percentages (None # qs) = None"
| "score_percentages (Some q # qs) =
     (case score_percentages qs of
        None \<Rightarrow> None
      | Some ss \<Rightarrow> Some (h_score_percentage q # ss))"

text \<open>
  \<open>adaptQuizDifficulty(userHistory, subject, gradeLevel)\<close>; the last two arguments are
  not used by the source. A missing history is \<open>None\<close>. The body runs in a \<open>try\<close>
  whose handler returns the object with the trend \<open>unknown\<close>:
  \<^verbatim>\<open>
  if (!userHistory || userHistory.length === 0) {
    return 'mixed'; // Default for new users
  }
  const recentQuizzes = userHistory.slice(-5); // Last 5 quizzes
  const averageScore = recentQuizzes.reduce((sum, quiz) => sum + quiz.score_percentage, 0)
                       / recentQuizzes.length;
  const trend = this.calculateTrend(recentQuizzes.map(q => q.score_percentage));
  \<close>
\<close>

definition adaptQuizDifficulty :: "history_entry option list option \<Rightarrow> adapt_result" where
  "adaptQuizDifficulty userHistory =
     (case userHistory of
        None \<Rightarrow> JsString ''mixed''
      | Some history \<Rightarrow>
          if length history = 0 then JsString ''mixed''
          else
            let recentQuizzes = slice_last 5 history
            in case score_percentages recentQuizzes of
                 None \<Rightarrow>
                   JsObject \<lparr>rec_difficulty = ''mixed'',
                             rec_reasoning = ''Using balanced difficulty due to insufficient data.'',
                             rec_averageScore = 0,
                             rec_trend = ''unknown''\<rparr>
               | Some scores \<Rightarrow>
                   let averageScore = foldl (\<lambda>sum s. sum + s) 0 scores
                                      / of_nat (length recentQuizzes);
                       trend = calculateTrend scores;
                       recommendedDifficulty =
                         (if averageScore \<ge> 85 \<and> trend \<ge> 0 then ''hard''
                          else if averageScore \<ge> 70 then ''medium''
                          else if averageScore < 60 then ''easy''
                          else ''mixed'')
                   in JsObject \<lparr>rec_difficulty = recommendedDifficulty,
                                rec_reasoning = getDifficultyReasoning averageScore trend,
                                rec_averageScore = of_int (js_round (averageScore * 100)) / 100,
                                rec_trend = (if trend > 0 then ''improving''
                                         else if trend < 0 then ''declining''
                                         else ''stable'')\<rparr>)"

text \<open>
  The read \<open>difficultyAnalysis.difficulty\<close> in \<open>generateQuiz\<close>: a string has no such
  property, so the read gives \<open>undefined\<close>, here \<open>None\<close>.
\<close>

definition property_difficulty :: "adapt_result \<Rightarrow> string option" where
  "property_difficulty r = (case r of JsString _ \<Rightarrow> None | JsObject obj \<Rightarrow> Some (rec_difficulty obj))"

text \<open>
  The choice of the difficulty in \<open>generateQuiz\<close>, from the requested level and the
  rows of the history query (ordered by \<open>completed_at\<close>, descending):
  \<^verbatim>\<open>
  let finalDifficulty = difficulty_level;
  if (!difficulty_level || difficulty_level === 'adaptive') {
    const difficultyAnalysis = await aiService.adaptQuizDifficulty(
      userHistory.map(s => ({ score_percentage: ..., difficulty: ... })), subject, grade_level);
    finalDifficulty = difficultyAnalysis.difficulty;
  }
  \<close>
\<close>

definition finalDifficulty :: "string option \<Rightarrow> history_entry list \<Rightarrow> string option" where
  "finalDifficulty difficulty_level userHistory =
     (if difficulty_level = None \<or> difficulty_level = Some [] \<or> difficulty_level = Some ''adaptive''
      then property_difficulty (adaptQuizDifficulty (Some (map Some userHistory)))
      else difficulty_level)"

text \<open>
  The specification's wording: the window is the five most recent entries of a history
  given most recent first, the average is their arithmetic mean, and the difficulty is
  the first rule that matches.
\<close>

definition most_recent :: "nat \<Rightarrow> 'a list \<Rightarrow> 'a list" where
  "most_recent n history = take n history"

definition mean :: "rat list \<Rightarrow> rat" where
  "mean xs = sum_list xs / of_nat (length xs)"

definition decision_table :: "rat \<Rightarrow> rat \<Rightarrow> string" where
  "decision_table avgScore trend =
     (if avgScore \<ge> 85 \<and> trend \<ge> 0 then ''hard''
      else if avgScore \<ge> 70 then ''medium''
      else if avgScore < 60 then ''easy''
      else ''mixed'')"

text \<open>Example history, most recent first: a score of 0 after five scores of 90.\<close>

definition example_history :: "history_entry list" where
  "example_history =
     map (\<lambda>s. \<lparr>h_score_percentage = s, h_difficulty = ''medium''\<rparr>) [0, 90, 90, 90, 90, 90]"

section \<open>Answer evaluation\<close>

text \<open>
  The Generation Service is outside the program. The model takes from it whether the
  client is configured (\<open>isAvailable\<close>) and, for each prompt, what the call gives: it
  throws (the request fails or the reply is not JSON), the reply parses to \<open>null\<close>, or the
  reply parses to an object with the properties the caller reads.
\<close>

record evaluation =
  ev_isCorrect :: bool
  ev_score :: int
  ev_feedback :: string
  ev_partialCredit :: rat

datatype evaluation_reply = EvaluationThrows | EvaluationNull | EvaluationObject evaluation

datatype suggestions_reply = SuggestionsThrow | SuggestionsArray "string list" | SuggestionsOther

record ai_service =
  isAvailable :: bool
  evaluation_of :: "string \<Rightarrow> string \<Rightarrow> string \<Rightarrow> string \<Rightarrow> int \<Rightarrow> evaluation_reply"
  suggestions_of :: "string \<Rightarrow> int \<Rightarrow> int \<Rightarrow> int \<Rightarrow> rat \<Rightarrow> string list \<Rightarrow> suggestions_reply"

text \<open>
  The block that \<open>evaluateAnswer\<close> runs when the service is not available, and again in
  its handler when the call throws:
  \<^verbatim>\<open>
  const similarity = this.calculateSimilarity(userAnswer.toLowerCase(), correctAnswer.toLowerCase());
  return {
    isCorrect: similarity > 0.7,
    score: Math.round(similarity * 100),
    feedback: similarity > 0.7 ? 'Good answer!' : 'Please review ...',
    partialCredit: similarity
  };
  \<close>
\<close>

definition simple_fallback_evaluation :: "string \<Rightarrow> string \<Rightarrow> evaluation" where
  "simple_fallback_evaluation userAnswer correctAnswer =
     (let similarity = calculateSimilarity (toLowerCase userAnswer) (toLowerCase correctAnswer)
      in \<lparr>ev_isCorrect = (similarity > 7 / 10),
          ev_score = js_round (similarity * 100),
          ev_feedback = (if similarity > 7 / 10 then ''Good answer!''
                         else ''Please review the correct answer and try to understand the key concepts.''),
          ev_partialCredit = similarity\<rparr>)"

text \<open>
  \<open>evaluateAnswer(question, userAnswer, correctAnswer, subject, gradeLevel)\<close>. The result
  \<open>None\<close> is the value \<open>null\<close>, returned when the reply parses to it.
\<close>

definition evaluateAnswer ::
  "ai_service \<Rightarrow> string \<Rightarrow> string \<Rightarrow> string \<Rightarrow> string \<Rightarrow> int \<Rightarrow> evaluation option" where
  "evaluateAnswer ai question userAnswer correctAnswer subj gradeLevel =
     (if \<not> isAvailable ai then Some (simple_fallback_evaluation userAnswer correctAnswer)
      else case evaluation_of ai question userAnswer correctAnswer subj gradeLevel of
             EvaluationThrows \<Rightarrow> Some (simple_fallback_evaluation userAnswer correctAnswer)
           | EvaluationNull \<Rightarrow> None
           | EvaluationObject ev \<Rightarrow> Some ev)"

text \<open>
  \<open>generateImprovementSuggestions(quizData, userAnswers, incorrectQuestions)\<close>: fixed
  suggestions when the service is not available, when the call throws and when the
  reply is not an array.
\<close>

definition generateImprovementSuggestions ::
  "ai_service \<Rightarrow> quiz \<Rightarrow> int \<Rightarrow> int \<Rightarrow> rat \<Rightarrow> string list \<Rightarrow> string list" where
  "generateImprovementSuggestions ai quizData correctCount totalQuestions scorePercentage
       incorrectQuestions =
     (if \<not> isAvailable ai
      then [''Review the questions you got wrong and study the explanations provided.'',
            ''Practice more questions on the topics you found challenging.'']
      else case suggestions_of ai (subject quizData) (grade_level quizData) correctCount
                  totalQuestions scorePercentage incorrectQuestions of
             SuggestionsThrow \<Rightarrow>
               [''Review your incorrect answers and study the explanations provided.'',
                ''Practice more questions on the topics you found challenging.'']
           | SuggestionsArray suggestions \<Rightarrow> suggestions
           | SuggestionsOther \<Rightarrow>
               [''Review the concepts you missed and try practicing similar problems.'',
                ''Consider asking your teacher for extra help on the topics you found challenging.''])"

section \<open>Grading a submitted answer\<close>

text \<open>An element of the request's \<open>answers\<close> array; the last two properties are optional.\<close>

record user_answer_in =
  ua_question_id :: uuid
  ua_answer :: string
  ua_time_taken :: "int option"
  ua_hint_used :: "bool option"

text \<open>
  The object pushed to \<open>answerResults\<close> for each graded answer. It has these nine
  properties and no other.
\<close>

record answer_result =
  res_question_id :: uuid
  res_question_text :: string
  res_user_answer :: string
  res_correct_answer :: string
  res_is_correct :: bool
  res_points_earned :: int
  res_points_possible :: int
  res_explanation :: "string option"
  res_ai_explanation :: "string option"

text \<open>
  The grading of one answer in \<open>submitQuiz\<close>: the values of \<open>isCorrect\<close>, \<open>pointsEarned\<close>
  and \<open>aiExplanation\<close> after the branch on the question type. Reading a property of a
  \<open>null\<close> evaluation throws, which the inner handler catches:
  \<^verbatim>\<open>
  if (question.question_type === 'multiple_choice' || question.question_type === 'true_false') {
    isCorrect = userAnswer.answer.toLowerCase() === question.correct_answer.toLowerCase();
    pointsEarned = isCorrect ? question.points : 0;
  } else if (question.question_type === 'short_answer' || question.question_type === 'essay') {
    try {
      const evaluation = await aiService.evaluateAnswer(...);
      isCorrect = evaluation.isCorrect;
      pointsEarned = Math.round(question.points * evaluation.partialCredit);
      aiExplanation = evaluation.feedback;
    } catch (aiError) {
      const similarity = this.calculateSimilarity(
        userAnswer.answer.toLowerCase(), question.correct_answer.toLowerCase());
      isCorrect = similarity > 0.7;
      pointsEarned = isCorrect ? question.points : Math.round(question.points * similarity);
    }
  }
  \<close>
\<close>

definition grade_answer ::
  "ai_service \<Rightarrow> quiz \<Rightarrow> question \<Rightarrow> string \<Rightarrow> bool \<times> int \<times> string option" where
  "grade_answer ai qz question answer_text =
     (if question_type question = multiple_choice \<or> question_type question = true_false then
        let isCorrect = (toLowerCase answer_text = toLowerCase (correct_answer question));
            pointsEarned = (if isCorrect then points question else 0)
        in (isCorrect, pointsEarned, None)
      else if question_type question = short_answer \<or> question_type question = essay then
        (case evaluateAnswer ai (question_text question) answer_text (correct_answer question)
                (subject qz) (grade_level qz) of
           Some evaluation \<Rightarrow>
             (ev_isCorrect evaluation,
              js_round (of_int (points question) * ev_partialCredit evaluation),
              Some (ev_feedback evaluation))
         | None \<Rightarrow>
             let similarity = calculateSimilarity (toLowerCase answer_text)
                                (toLowerCase (correct_answer question));
                 isCorrect = (similarity > 7 / 10);
                 pointsEarned = (if isCorrect then points question
                                 else js_round (of_int (points question) * similarity))
             in (isCorrect, pointsEarned, None))
      else (False, 0, None))"

text \<open>
  The loop over the submitted answers. Its state: the array \<open>answerResults\<close>, the two
  counters and the rows of the table of answers.
\<close>

record grading =
  g_answerResults :: "answer_result list"
  g_totalPointsEarned :: int
  g_correctAnswers :: int
  g_answers :: "answer list"

fun process_answers ::
  "ai_service \<Rightarrow> submission \<Rightarrow> quiz \<Rightarrow> user_answer_in list \<Rightarrow> grading \<Rightarrow> grading" where
  "process_answers ai sub qz [] g = g"
| "process_answers ai sub qz (userAnswer # rest) g =
     (case find (\<lambda>q. qn_id q = ua_question_id userAnswer) (questions qz) of
        None \<Rightarrow> process_answers ai sub qz rest g
      | Some question \<Rightarrow>
          (case grade_answer ai qz question (ua_answer userAnswer) of
             (isCorrect, pointsEarned, aiExplanation) \<Rightarrow>
               process_answers ai sub qz rest
                 \<lparr>g_answerResults = g_answerResults g @
                    [\<lparr>res_question_id = qn_id question,
                      res_question_text = question_text question,
                      res_user_answer = ua_answer userAnswer,
                      res_correct_answer = correct_answer question,
                      res_is_correct = isCorrect,
                      res_points_earned = pointsEarned,
                      res_points_possible = points question,
                      res_explanation = explanation question,
                      res_ai_explanation = aiExplanation\<rparr>],
                  g_totalPointsEarned = g_totalPointsEarned g + pointsEarned,
                  g_correctAnswers = (if isCorrect then g_correctAnswers g + 1
                                      else g_correctAnswers g),
                  g_answers = g_answers g @
                    [\<lparr>ans_submission_id = sub_id sub,
                      ans_question_id = qn_id question,
                      user_answer = ua_answer userAnswer,
                      is_correct = isCorrect,
                      points_earned = pointsEarned,
                      time_taken_seconds =
                        (case ua_time_taken userAnswer of
                           None \<Rightarrow> None
                         | Some t \<Rightarrow> if t = 0 then None else Some t),
                      hint_used = (case ua_hint_used userAnswer of None \<Rightarrow> False | Some h \<Rightarrow> h),
                      ai_explanation = aiExplanation\<rparr>]\<rparr>))"

section \<open>The submission controller\<close>

text \<open>
  The handlers \<open>startQuiz\<close> and \<open>submitQuiz\<close> are methods of the controller object and
  are modelled as called on it, so that \<open>this.calculateSimilarity\<close> and \<open>this.getGrade\<close>
  are the controller's own helpers. A handler takes the store and returns its answer
  with the store it leaves; requests are handled one after the other.

  What a handler answers: the HTTP status with the \<open>error\<close> code of a failure, or the
  \<open>data\<close> of a success.
\<close>

record start_data =
  sd_submission_id :: uuid
  sd_quiz_title :: string
  sd_total_questions :: int
  sd_time_limit_minutes :: "int option"
  sd_started_at :: date
  sd_attempt_number :: int

record submit_data =
  rd_id :: uuid
  rd_score_percentage :: rat
  rd_correct_answers :: int
  rd_total_questions :: int
  rd_total_points_earned :: int
  rd_total_points_possible :: int
  rd_time_taken_minutes :: "rat option"
  rd_completed_at :: "date option"
  rd_results :: "answer_result list"
  rd_improvement_suggestions :: "string list"
  rd_grade :: string
  rd_can_retry :: bool

datatype response =
    ValidationFailed
  | Failure nat string
  | AlreadyInProgress uuid date "int option"
  | QuizStarted start_data
  | QuizSubmitted submit_data





text \<open>
  \<open>instance.update\<close> writes the instance's row, found by its primary key; the users
  likewise.
\<close>

definition save_submission :: "submission \<Rightarrow> db \<Rightarrow> db" where
  "save_submission inst store =
     store\<lparr>submissions := map (\<lambda>s. if sub_id s = sub_id inst then inst else s) (submissions store)\<rparr>"

definition save_user :: "user \<Rightarrow> db \<Rightarrow> db" where
  "save_user inst store =
     store\<lparr>users := map (\<lambda>u. if usr_id u = usr_id inst then inst else u) (users store)\<rparr>"

text \<open>
  The test of the time limit in \<open>submitQuiz\<close>; a limit that is null or 0 is falsy and
  leaves the submission unlimited:
  \<^verbatim>\<open>
  if (submission.quiz.time_limit_minutes) {
    const timeElapsed = (new Date() - submission.started_at) / (1000 * 60);
    if (timeElapsed > submission.quiz.time_limit_minutes) {
  \<close>
\<close>

definition time_limit_exceeded :: "date \<Rightarrow> submission \<Rightarrow> quiz \<Rightarrow> bool" where
  "time_limit_exceeded now sub qz =
     (case time_limit_minutes qz of
        None \<Rightarrow> False
      | Some limit \<Rightarrow>
          limit \<noteq> 0
          \<and> (let timeElapsed = (of_int (now - started_at sub) :: rat) / (1000 * 60)
             in timeElapsed > of_int limit))"

text \<open>
  The read \<open>r.time_taken_seconds\<close> on an element of \<open>answerResults\<close>: the object has no
  such property, so the read gives \<open>undefined\<close>, here \<open>None\<close>.
\<close>

definition result_time_taken_seconds :: "answer_result \<Rightarrow> rat option" where
  "result_time_taken_seconds r = None"

text \<open>Division of two numbers, by zero too.\<close>

definition js_divide :: "rat \<Rightarrow> rat \<Rightarrow> js_number" where
  "js_divide a b =
     (if b \<noteq> 0 then Num (a / b)
      else if a = 0 then NaN
      else if a > 0 then Infinity
      else NegInfinity)"

text \<open>
  The \<open>performance_analysis\<close> object:
  \<^verbatim>\<open>
  strengths: answerResults.filter(r => r.is_correct).map(r => r.question_id),
  weaknesses: answerResults.filter(r => !r.is_correct).map(r => r.question_id),
  average_time_per_question:
    answerResults.reduce((sum, r) => sum + (r.time_taken_seconds || 0), 0) / answerResults.length
  \<close>
\<close>

definition analyse_performance :: "answer_result list \<Rightarrow> performance" where
  "analyse_performance answerResults =
     \<lparr>strengths = map res_question_id (filter (\<lambda>r. res_is_correct r) answerResults),
      weaknesses = map res_question_id (filter (\<lambda>r. \<not> res_is_correct r) answerResults),
      average_time_per_question =
        js_divide
          (foldl (\<lambda>sum r. sum + (case result_time_taken_seconds r of
                                    None \<Rightarrow> 0
                                  | Some t \<Rightarrow> if t = 0 then 0 else t))
             0 answerResults)
          (of_nat (length answerResults))\<rparr>"

text \<open>The request of \<open>submitQuiz\<close>: whether it passed validation, the user, the parameters.\<close>

record submit_request =
  req_valid :: bool
  req_user :: user
  req_submission_id :: uuid
  req_answers :: "user_answer_in list"

text \<open>
  \<open>submitQuiz\<close>. The clock is read twice: \<open>now\<close> for the time limit, \<open>completedAt\<close> in
  \<open>completeSubmission\<close>. A submission whose quiz is not in the store has no \<open>quiz\<close>
  object; reading its time limit throws, and the outer handler answers with status 500.
\<close>

definition submitQuiz ::
  "ai_service \<Rightarrow> date \<Rightarrow> date \<Rightarrow> submit_request \<Rightarrow> db \<Rightarrow> response \<times> db" where
  "submitQuiz ai now completedAt req store =
     (if \<not> req_valid req then (ValidationFailed, store)
      else
        case find (\<lambda>s. sub_id s = req_submission_id req \<and> sub_user_id s = usr_id (req_user req))
               (submissions store) of
          None \<Rightarrow> (Failure 404 ''SUBMISSION_NOT_FOUND'', store)
        | Some sub \<Rightarrow>
            if status sub \<noteq> in_progress then (Failure 400 ''QUIZ_NOT_IN_PROGRESS'', store)
            else
              case find (\<lambda>q. qz_id q = sub_quiz_id sub) (quizzes store) of
                None \<Rightarrow> (Failure 500 ''Internal server error'', store)
              | Some qz \<Rightarrow>
                  if time_limit_exceeded now sub qz
                  then (Failure 400 ''TIME_LIMIT_EXCEEDED'',
                        save_submission (sub\<lparr>status := expired\<rparr>) store)
                  else
                    let g = process_answers ai sub qz (req_answers req)
                              \<lparr>g_answerResults = [], g_totalPointsEarned = 0,
                               g_correctAnswers = 0, g_answers = answers store\<rparr>;
                        answerResults = g_answerResults g;
                        updated = sub\<lparr>correct_answers := g_correctAnswers g,
                                     total_points_earned := g_totalPointsEarned g,
                                     status := completed\<rparr>;
                        finished = completeSubmission completedAt updated;
                        scorePercentage = calculateScore updated;
                        incorrectQuestions =
                          map res_question_text (filter (\<lambda>r. \<not> res_is_correct r) answerResults);
                        improvementSuggestions =
                          (if length incorrectQuestions > 0
                           then generateImprovementSuggestions ai qz (g_correctAnswers g)
                                  (total_questions finished) scorePercentage incorrectQuestions
                           else []);
                        final = finished\<lparr>improvement_suggestions := improvementSuggestions,
                                        performance_analysis :=
                                          Some (analyse_performance answerResults)\<rparr>
                    in (QuizSubmitted
                          \<lparr>rd_id = sub_id final,
                           rd_score_percentage = scorePercentage,
                           rd_correct_answers = g_correctAnswers g,
                           rd_total_questions = total_questions final,
                           rd_total_points_earned = g_totalPointsEarned g,
                           rd_total_points_possible = total_points_possible final,
                           rd_time_taken_minutes = time_taken_minutes final,
                           rd_completed_at = completed_at final,
                           rd_results = answerResults,
                           rd_improvement_suggestions = improvementSuggestions,
                           rd_grade = getGrade scorePercentage,
                           rd_can_retry = (attempt_number final < max_attempts qz)\<rparr>,
                        save_user (updateStats (req_user req) scorePercentage)
                          (save_submission final (store\<lparr>answers := g_answers g\<rparr>))))"

section \<open>Example data\<close>

definition example_choice_question :: question where
  "example_choice_question =
     \<lparr>qn_id = 11, question_text = ''What is the capital of France?'',
      question_type = multiple_choice, correct_answer = ''Paris'', points = 2,
      explanation = None\<rparr>"

definition example_short_question :: question where
  "example_short_question =
     \<lparr>qn_id = 12, question_text = ''Name the first letters.'',
      question_type = short_answer, correct_answer = ''a b c e'', points = 10,
      explanation = None\<rparr>"

definition example_quiz :: quiz where
  "example_quiz =
     \<lparr>qz_id = 1, title = ''Geography quiz'', subject = ''geography'', grade_level = 5,
      qz_total_questions = 2, time_limit_minutes = Some 1, max_attempts = 3,
      is_active = True, questions = [example_choice_question, example_short_question]\<rparr>"

definition example_submission :: submission where
  "example_submission =
     blank_submission\<lparr>sub_id := 5, total_questions := 2, total_points_possible := 12\<rparr>"

definition example_store :: db where
  "example_store =
     \<lparr>quizzes = [example_quiz], submissions = [example_submission], answers = [],
      users = [example_user]\<rparr>"



text \<open>A service that is not configured, and one whose replies parse to \<open>null\<close>.\<close>

definition offline_ai :: ai_service where
  "offline_ai =
     \<lparr>isAvailable = False,
      evaluation_of = (\<lambda>_ _ _ _ _. EvaluationThrows),
      suggestions_of = (\<lambda>_ _ _ _ _ _. SuggestionsThrow)\<rparr>"

definition null_reply_ai :: ai_service where
  "null_reply_ai =
     \<lparr>isAvailable = True,
      evaluation_of = (\<lambda>_ _ _ _ _. EvaluationNull),
      suggestions_of = (\<lambda>_ _ _ _ _ _. SuggestionsThrow)\<rparr>"

text \<open>
  A request with one answer, given in 30 seconds, to the first question, and one with a
  further answer to a question that the quiz does not have.
\<close>

definition example_request :: submit_request where
  "example_request =
     \<lparr>req_valid = True, req_user = example_user, req_submission_id = 5,
      req_answers = [\<lparr>ua_question_id = 11, ua_answer = ''paris'', ua_time_taken = Some 30,
                      ua_hint_used = None\<rparr>]\<rparr>"


section \<open>Properties stated by the specification\<close>



section \<open>Facts about the similarity fallback\<close>

lemma includes_iff: "array_includes ys x \<longleftrightarrow> x \<in> set ys"
  by (induction ys) auto

lemma words_in_filter: "words_in wa wb = length (filter (\<lambda>w. array_includes wb w) wa)"
  unfolding words_in_def by (induction wa) (simp_all add: includes_iff)

lemma split_ws_nonempty: "split_ws s \<noteq> []"
  by (subst split_ws.simps) (simp add: Let_def)

lemma calculateSimilarity_bounds:
  "0 \<le> calculateSimilarity x y \<and> calculateSimilarity x y \<le> 1"
proof -
  let ?w1 = "split_ws x" and ?w2 = "split_ws y"
  let ?c = "filter (\<lambda>word. array_includes ?w2 word) ?w1"
  let ?m = "max (length ?w1) (length ?w2)"
  have pos: "0 < ?m" using split_ws_nonempty [of x] by (cases ?w1) auto
  have le: "length ?c \<le> ?m"
    by (rule order_trans [OF length_filter_le max.cobounded1])
  have "(of_nat (length ?c) :: rat) \<le> of_nat ?m" using le by (simp only: of_nat_le_iff)
  moreover have "(0::rat) < of_nat ?m" using pos by (simp only: of_nat_0_less_iff)
  ultimately have "(of_nat (length ?c) :: rat) / of_nat ?m \<le> 1"
    by (simp add: divide_le_eq_1)
  moreover have "(0::rat) \<le> of_nat (length ?c) / of_nat ?m" by simp
  ultimately show ?thesis by (simp add: calculateSimilarity_def Let_def)
qed

lemma similarity_example: "similarity_fallback ''the cat sat'' ''the cat'' = 2 / 3"
  by code_simp

text \<open>
  Claim C1. For all strings \<open>a\<close> and \<open>b\<close> the similarity is the number of words of the
  case-folded \<open>a\<close> (split on whitespace, duplicates counted) that occur anywhere in the
  case-folded \<open>b\<close>, divided by the larger of the two word counts; it lies between 0 and
  1; and the similarity of "the cat sat" and "the cat" is 2/3.
\<close>

theorem similarity_is_word_overlap_ratio:
  "similarity_fallback a b = spec_similarity a b
   \<and> 0 \<le> similarity_fallback a b \<and> similarity_fallback a b \<le> 1
   \<and> similarity_fallback ''the cat sat'' ''the cat'' = 2 / 3"
proof -
  have "similarity_fallback a b = spec_similarity a b"
    by (simp add: similarity_fallback_def calculateSimilarity_def spec_similarity_def
        words_in_filter Let_def)
  moreover have "0 \<le> similarity_fallback a b \<and> similarity_fallback a b \<le> 1"
    unfolding similarity_fallback_def by (rule calculateSimilarity_bounds)
  ultimately show ?thesis using similarity_example by simp
qed

section \<open>Facts about scores and statistics\<close>

lemma js_round_bounds: "of_int (js_round x) \<le> x + 1 / 2 \<and> x - 1 / 2 < of_int (js_round x)"
  unfolding js_round_def by linarith









section \<open>Facts about the adaptive difficulty\<close>

lemma foldl_plus_sum_list: "foldl (\<lambda>a b. a + b) a xs = a + sum_list (xs :: rat list)"
  by (induction xs arbitrary: a) (simp_all add: add.assoc)

lemma score_percentages_Some:
  "score_percentages (map Some qs) = Some (map h_score_percentage qs)"
  by (induction qs) simp_all

lemma score_percentages_None: "None \<in> set qs \<Longrightarrow> score_percentages qs = None"
proof (induction qs)
  case Nil
  then show ?case by simp
next
  case (Cons q qs)
  then show ?case by (cases q) (auto split: option.splits)
qed

lemma slice_last_short: "length xs \<le> n \<Longrightarrow> slice_last n xs = most_recent n xs"
  by (simp add: slice_last_def most_recent_def)

text \<open>
  What the estimator computes on a well-formed, non-empty history: the decision table
  on the mean and the trend of the last five elements of the array.
\<close>

lemma adaptQuizDifficulty_window:
  assumes "history \<noteq> []"
  shows "property_difficulty (adaptQuizDifficulty (Some (map Some history)))
         = Some (decision_table
                   (mean (map h_score_percentage (slice_last 5 history)))
                   (calculateTrend (map h_score_percentage (slice_last 5 history))))"
proof -
  have s: "slice_last 5 (map Some history) = map Some (slice_last 5 history)"
    by (simp add: slice_last_def drop_map)
  show ?thesis
    using assms
    by (simp add: adaptQuizDifficulty_def s score_percentages_Some property_difficulty_def
        decision_table_def mean_def foldl_plus_sum_list Let_def)
qed

text \<open>
  A failure inside the estimator (a history whose last five elements include a null
  one) gives the default object with the trend \<open>unknown\<close>.
\<close>

lemma adaptQuizDifficulty_failure:
  assumes "None \<in> set (slice_last 5 history)"
  shows "adaptQuizDifficulty (Some history)
         = JsObject \<lparr>rec_difficulty = ''mixed'',
                     rec_reasoning = ''Using balanced difficulty due to insufficient data.'',
                     rec_averageScore = 0, rec_trend = ''unknown''\<rparr>"
proof -
  have "history \<noteq> []" using assms by (auto simp: slice_last_def)
  then show ?thesis
    using score_percentages_None [OF assms] by (simp add: adaptQuizDifficulty_def Let_def)
qed

text \<open>
  Claim C4, evaluated. On the history 0, 90, 90, 90, 90, 90 (most recent first) the
  estimator averages the five oldest entries and recommends \<open>hard\<close> with the average 90,
  while the five most recent entries have the mean 72, for which the decision table
  gives \<open>medium\<close>.
\<close>

theorem adaptQuizDifficulty_takes_oldest_five:
  "adaptQuizDifficulty (Some (map Some example_history))
     = JsObject \<lparr>rec_difficulty = ''hard'', rec_reasoning = getDifficultyReasoning 90 0,
                 rec_averageScore = 90, rec_trend = ''stable''\<rparr>
   \<and> property_difficulty (adaptQuizDifficulty (Some (map Some example_history))) = Some ''hard''
   \<and> mean (map h_score_percentage (most_recent 5 example_history)) = 72
   \<and> decision_table 72
        (calculateTrend (map h_score_percentage (most_recent 5 example_history))) = ''medium''"
  by code_simp

text \<open>
  Claim C5, evaluated. For a missing or empty history the estimator returns the string
  \<open>mixed\<close>, not an object: the property \<open>difficulty\<close> that \<open>generateQuiz\<close> reads from
  the result is undefined, and so is the difficulty it generates the quiz with.
\<close>

theorem adaptQuizDifficulty_cold_start_is_string:
  "adaptQuizDifficulty None = JsString ''mixed''
   \<and> adaptQuizDifficulty (Some []) = JsString ''mixed''
   \<and> property_difficulty (adaptQuizDifficulty (Some [])) = None
   \<and> finalDifficulty None [] = None
   \<and> finalDifficulty (Some ''adaptive'') [] = None"
  by (simp add: adaptQuizDifficulty_def property_difficulty_def finalDifficulty_def)

section \<open>Facts about grading\<close>

lemma grade_answer_unavailable:
  assumes "\<not> isAvailable ai"
    and "question_type q = short_answer \<or> question_type q = essay"
  shows "grade_answer ai qz q a =
           (similarity_fallback a (correct_answer q) > 7 / 10,
            js_round (of_int (points q) * similarity_fallback a (correct_answer q)),
            Some (ev_feedback (simple_fallback_evaluation a (correct_answer q))))"
  using assms
  by (auto simp: grade_answer_def evaluateAnswer_def simple_fallback_evaluation_def
      similarity_fallback_def Let_def)

text \<open>
  The points of an answer that the service evaluates are the question's points times the
  reply's \<open>partialCredit\<close>, rounded: the reply is not checked to lie between 0 and 1.
\<close>

lemma grade_answer_reply:
  assumes "isAvailable ai"
    and "evaluation_of ai (question_text q) a (correct_answer q) (subject qz) (grade_level qz)
         = EvaluationObject ev"
    and "question_type q = short_answer \<or> question_type q = essay"
  shows "grade_answer ai qz q a =
           (ev_isCorrect ev, js_round (of_int (points q) * ev_partialCredit ev),
            Some (ev_feedback ev))"
  using assms by (auto simp: grade_answer_def evaluateAnswer_def)

lemma grade_answer_null_reply:
  assumes "evaluateAnswer ai (question_text q) a (correct_answer q) (subject qz) (grade_level qz) = None"
    and "question_type q = short_answer \<or> question_type q = essay"
  shows "grade_answer ai qz q a =
           (similarity_fallback a (correct_answer q) > 7 / 10,
            (if similarity_fallback a (correct_answer q) > 7 / 10 then points q
             else js_round (of_int (points q) * similarity_fallback a (correct_answer q))),
            None)"
  using assms
  by (auto simp: grade_answer_def similarity_fallback_def Let_def)

text \<open>
  Claim C2, evaluated. With the service not configured, a short answer that shares three
  of its four words with the correct answer (similarity 0.75) is marked correct and
  earns \<open>round(10 * 0.75) = 8\<close> of the 10 points of its question, not all 10. The
  handler of the controller, reached when the reply parses to \<open>null\<close>, gives the 10
  points.
\<close>

theorem fallback_of_unavailable_service_gives_partial_points:
  "grade_answer offline_ai example_quiz example_short_question ''a b c d''
     = (True, 8, Some ''Good answer!'')
   \<and> similarity_fallback ''a b c d'' (correct_answer example_short_question) = 3 / 4
   \<and> points example_short_question = 10
   \<and> grade_answer null_reply_ai example_quiz example_short_question ''a b c d''
     = (True, 10, None)"
  by code_simp

text \<open>
  The average time of the performance analysis is 0 whatever the answers' times are,
  and not a number when no answer was graded.
\<close>

lemma analyse_performance_average:
  "average_time_per_question (analyse_performance rs) = (if rs = [] then NaN else Num 0)"
proof -
  have "foldl (\<lambda>sum r. sum + (case result_time_taken_seconds r of
                                    None \<Rightarrow> 0
                                  | Some t \<Rightarrow> if t = 0 then 0 else t)) a rs = a" for a
    by (induction rs arbitrary: a) (simp_all add: result_time_taken_seconds_def)
  then show ?thesis by (simp add: analyse_performance_def js_divide_def)
qed

text \<open>
  Claim C9, evaluated. A submission with one graded answer that took 30 seconds stores
  30 in the answer's row and the average time per question 0, not 30.
\<close>

theorem average_time_ignores_answer_times:
  "map time_taken_seconds (answers (snd (submitQuiz offline_ai 30000 30000 example_request example_store)))
     = [Some 30]
   \<and> map performance_analysis
        (submissions (snd (submitQuiz offline_ai 30000 30000 example_request example_store)))
     = [Some \<lparr>strengths = [11], weaknesses = [], average_time_per_question = Num 0\<rparr>]"
  by code_simp

section \<open>Facts about the submission controller\<close>

lemma time_limit_exceededI:
  assumes "time_limit_minutes qz = Some limit" "limit \<noteq> 0"
    and "(of_int (now - started_at sub) :: rat) / (1000 * 60) > of_int limit"
  shows "time_limit_exceeded now sub qz"
  using assms by (simp add: time_limit_exceeded_def Let_def)

text \<open>
  Claim C6. A valid submit of a submission in progress whose quiz has a time limit
  (not null and, as the schema requires, not 0) and whose minutes elapsed since
  \<open>started_at\<close> exceed the limit is rejected with \<open>TIME_LIMIT_EXCEEDED\<close>; the store
  afterwards is the store before with the status of that submission set to \<open>expired\<close>:
  no answer is graded and no row is added to the answers.
\<close>

theorem submit_after_time_limit:
  assumes "req_valid req"
    and "find (\<lambda>s. sub_id s = req_submission_id req \<and> sub_user_id s = usr_id (req_user req))
           (submissions store) = Some sub"
    and "status sub = in_progress"
    and "find (\<lambda>q. qz_id q = sub_quiz_id sub) (quizzes store) = Some qz"
    and "time_limit_minutes qz = Some limit" and "limit \<noteq> 0"
    and "(of_int (now - started_at sub) :: rat) / (1000 * 60) > of_int limit"
  shows "submitQuiz ai now completedAt req store =
           (Failure 400 ''TIME_LIMIT_EXCEEDED'',
            store\<lparr>submissions :=
              map (\<lambda>s. if sub_id s = sub_id sub then sub\<lparr>status := expired\<rparr> else s)
                (submissions store)\<rparr>)
         \<and> answers (snd (submitQuiz ai now completedAt req store)) = answers store
         \<and> users (snd (submitQuiz ai now completedAt req store)) = users store"
proof -
  have "time_limit_exceeded now sub qz"
    using assms(5-7) by (rule time_limit_exceededI)
  then show ?thesis
    using assms(1-4) by (simp add: submitQuiz_def save_submission_def)
qed

theorem submit_after_time_limit_witness:
  "submitQuiz offline_ai 120000 120000 example_request example_store =
     (Failure 400 ''TIME_LIMIT_EXCEEDED'',
      example_store\<lparr>submissions := [example_submission\<lparr>status := expired\<rparr>]\<rparr>)
   \<and> answers (snd (submitQuiz offline_ai 120000 120000 example_request example_store)) = []"
proof -
  have 1: "req_valid example_request" by (simp add: example_request_def)
  have 2: "find (\<lambda>s. sub_id s = req_submission_id example_request
                    \<and> sub_user_id s = usr_id (req_user example_request))
             (submissions example_store) = Some example_submission"
    by (simp add: example_request_def example_store_def example_submission_def
        blank_submission_def example_user_def)
  have 3: "status example_submission = in_progress"
    by (simp add: example_submission_def blank_submission_def)
  have 4: "find (\<lambda>q. qz_id q = sub_quiz_id example_submission) (quizzes example_store)
             = Some example_quiz"
    by (simp add: example_store_def example_submission_def blank_submission_def example_quiz_def)
  have 5: "time_limit_minutes example_quiz = Some 1" by (simp add: example_quiz_def)
  have 6: "(1::int) \<noteq> 0" by simp
  have 7: "(of_int (120000 - started_at example_submission) :: rat) / (1000 * 60) > of_int 1"
    by (simp add: example_submission_def blank_submission_def)
  show ?thesis
    using submit_after_time_limit [OF 1 2 3 4 5 6 7, of offline_ai 120000]
    by (simp add: example_store_def example_submission_def)
qed







section \<open>Facts about starting an attempt\<close>












end
